theory Spec2Isabelle
  imports Main
begin

section \<open>JavaScript values\<close>

text \<open>
  The handlers work on parsed JSON and on the values JavaScript derives from it.
  \<open>JUndef\<close> is \<^verbatim>\<open>undefined\<close> (an absent property), \<open>JNaN\<close> stands for the
  non-finite numbers (\<^verbatim>\<open>NaN\<close>, \<^verbatim>\<open>Infinity\<close>), which the handlers never tell apart:
  they only test \<^verbatim>\<open>Number.isFinite\<close>. Finite numbers are modelled as unbounded
  integers; fractional sizes and quantities, and the rounding of doubles and of MySQL
  columns, are outside the model.
\<close>

datatype json =
    JUndef
  | JNull
  | JNaN
  | JBool bool
  | JNum int
  | JStr string
  | JArr "json list"
  | JObj "(string \<times> json) list"

text \<open>Truthiness, as used by \<^verbatim>\<open>!x\<close>, \<^verbatim>\<open>x || y\<close> and \<^verbatim>\<open>x && y\<close>.\<close>

fun truthy :: "json \<Rightarrow> bool" where
  "truthy JUndef = False"
| "truthy JNull = False"
| "truthy JNaN = False"
| "truthy (JBool b) = b"
| "truthy (JNum n) = (n \<noteq> 0)"
| "truthy (JStr s) = (s \<noteq> [])"
| "truthy (JArr xs) = True"
| "truthy (JObj kvs) = True"

text \<open>\<^verbatim>\<open>x == null\<close> holds of \<^verbatim>\<open>null\<close> and \<^verbatim>\<open>undefined\<close> only.\<close>

fun nullish :: "json \<Rightarrow> bool" where
  "nullish JUndef = True"
| "nullish JNull = True"
| "nullish v = False"

fun isArray :: "json \<Rightarrow> bool" where
  "isArray (JArr xs) = True"
| "isArray v = False"

fun elems :: "json \<Rightarrow> json list" where
  "elems (JArr xs) = xs"
| "elems v = []"

text \<open>
  Reading a property \<^verbatim>\<open>x.k\<close> of a value that is not \<^verbatim>\<open>null\<close> or \<^verbatim>\<open>undefined\<close>:
  an object parsed from JSON keeps the last binding of a repeated key; the property
  names the handlers read are no built-in property of a string, number or array.
  Reading a property of \<^verbatim>\<open>null\<close> or \<^verbatim>\<open>undefined\<close> throws; the handlers where that can
  happen test \<open>nullish\<close> first.
\<close>

fun get_prop :: "json \<Rightarrow> string \<Rightarrow> json" where
  "get_prop (JObj kvs) k = (case map_of (rev kvs) k of Some v \<Rightarrow> v | None \<Rightarrow> JUndef)"
| "get_prop v k = JUndef"

definition js_or :: "json \<Rightarrow> json \<Rightarrow> json" where
  "js_or a b = (if truthy a then a else b)"

subsection \<open>Strings and numbers\<close>

definition is_digit :: "char \<Rightarrow> bool" where
  "is_digit c = (48 \<le> (of_char c :: nat) \<and> (of_char c :: nat) \<le> 57)"

definition is_space :: "char \<Rightarrow> bool" where
  "is_space c = ((of_char c :: nat) \<in> {9, 10, 11, 12, 13, 32})"

definition trim :: "string \<Rightarrow> string" where
  "trim s = rev (dropWhile is_space (rev (dropWhile is_space s)))"

fun digits_val :: "nat \<Rightarrow> string \<Rightarrow> nat" where
  "digits_val acc [] = acc"
| "digits_val acc (c # cs) = digits_val (10 * acc + (of_char c - 48)) cs"

definition dec_literal :: "string \<Rightarrow> int option" where
  "dec_literal ds = (if ds \<noteq> [] \<and> list_all is_digit ds then Some (int (digits_val 0 ds)) else None)"

text \<open>
  \<^verbatim>\<open>Number(s)\<close> on a string, for the decimal integer literals of the model's number
  domain: blanks are trimmed, the empty string is 0, an optional sign precedes the
  digits. Every other string is not a number of the model.
\<close>

definition str_to_num :: "string \<Rightarrow> int option" where
  "str_to_num s =
     (let t = trim s in
      if t = [] then Some 0
      else if hd t = CHR ''+'' then dec_literal (tl t)
      else if hd t = CHR ''-'' then map_option uminus (dec_literal (tl t))
      else dec_literal t)"

fun js_Number :: "json \<Rightarrow> json" where
  "js_Number JUndef = JNaN"
| "js_Number JNull = JNum 0"
| "js_Number JNaN = JNaN"
| "js_Number (JBool b) = JNum (if b then 1 else 0)"
| "js_Number (JNum n) = JNum n"
| "js_Number (JStr s) = (case str_to_num s of Some n \<Rightarrow> JNum n | None \<Rightarrow> JNaN)"
| "js_Number (JArr []) = JNum 0"
| "js_Number (JArr [x]) =
     (case x of JUndef \<Rightarrow> JNum 0 | JNull \<Rightarrow> JNum 0 | JBool b \<Rightarrow> JNaN | JObj kvs \<Rightarrow> JNaN
      | _ \<Rightarrow> js_Number x)"
| "js_Number (JArr (x # y # zs)) = JNaN"
| "js_Number (JObj kvs) = JNaN"


definition digit_char :: "nat \<Rightarrow> char" where
  "digit_char d = char_of (48 + d)"

function show_nat :: "nat \<Rightarrow> string" where
  "show_nat n = (if n < 10 then [digit_char n] else show_nat (n div 10) @ [digit_char (n mod 10)])"
  by pat_completeness auto
termination
  by (relation "measure id") auto

definition show_int :: "int \<Rightarrow> string" where
  "show_int i = (if i < 0 then CHR ''-'' # show_nat (nat (- i)) else show_nat (nat i))"

fun join_comma :: "string list \<Rightarrow> string" where
  "join_comma [] = []"
| "join_comma [s] = s"
| "join_comma (s # t # ts) = s @ '','' @ join_comma (t # ts)"

text \<open>\<^verbatim>\<open>String(x)\<close>.\<close>

fun js_String :: "json \<Rightarrow> string" where
  "js_String JUndef = ''undefined''"
| "js_String JNull = ''null''"
| "js_String JNaN = ''NaN''"
| "js_String (JBool b) = (if b then ''true'' else ''false'')"
| "js_String (JNum n) = show_int n"
| "js_String (JStr s) = s"
| "js_String (JArr xs) = join_comma (map (\<lambda>x. if nullish x then [] else js_String x) xs)"
| "js_String (JObj kvs) = ''[object Object]''"

text \<open>\<^verbatim>\<open>s.split(',')\<close>: the pieces between commas; the empty string gives one empty piece.\<close>

fun split_on :: "char \<Rightarrow> string \<Rightarrow> string list" where
  "split_on d [] = [[]]"
| "split_on d (c # cs) =
     (if c = d then [] # split_on d cs
      else (case split_on d cs of [] \<Rightarrow> [[c]] | p # ps \<Rightarrow> (c # p) # ps))"


section \<open>The relational store\<close>

text \<open>
  The MySQL server is an external collaborator; it is modelled by the two tables of the
  schema, the statements the handlers send (one constructor per SQL text), an open
  transaction (the rows as they were at \<^verbatim>\<open>beginTransaction\<close>) and a schedule of faults.
  The schedule is consumed by every call that crosses the connection: \<open>Ok\<close> lets the
  call proceed, \<open>Fail e dropped\<close> makes it throw \<open>e\<close> without effect (and, when \<open>dropped\<close>
  holds, leaves the connection in state \<^verbatim>\<open>disconnected\<close>); an empty schedule means no
  further fault.
\<close>

datatype error = Error string

fun message :: "error \<Rightarrow> string" where
  "message (Error m) = m"

record shoe_row =
  sh_id :: int
  sh_name :: json
  sh_brand :: json
  sh_price :: json
  sh_image :: json

record inv_row =
  inv_id :: int
  inv_shoe_id :: int
  inv_size :: int
  inv_quantity :: int

datatype stmt =
    BeginTransaction
  | Commit
  | Rollback
  | DeleteShoe json
  | UpdateShoe "(string \<times> json) list" json
  | SelectShoeId json
  | SelectShoe json
  | InsertShoes "(json \<times> json \<times> json \<times> json) list"
  | DeleteInventory json
  | InsertInventory "(json \<times> json \<times> json) list"
  | UpsertQuantity json json json
  | UpsertAddQuantity json json json
  | SelectQuantity json json
  | DecrementQuantity json json json
  | SelectInventory json json

datatype qresult = RowSet "json list" | Header nat int

fun rows_of :: "qresult \<Rightarrow> json list" where
  "rows_of (RowSet rs) = rs"
| "rows_of (Header n i) = []"

fun affectedRows :: "qresult \<Rightarrow> nat" where
  "affectedRows (Header n i) = n"
| "affectedRows (RowSet rs) = 0"


datatype outcome = Ok | Fail error bool

record world =
  shoes_table :: "shoe_row list"
  shoe_inventory :: "inv_row list"
  next_shoe_id :: int
  next_inv_id :: int
  cascade :: bool
  tx :: "(shoe_row list \<times> inv_row list) option"
  faults :: "outcome list"
  log :: "(nat \<times> stmt) list"
  cachedConn :: "nat option"
  disconnected :: "nat list"
  next_conn :: nat

type_synonym 'a io = "world \<Rightarrow> (error + 'a) \<times> world"

definition ret :: "'a \<Rightarrow> 'a io" where
  "ret x = (\<lambda>w. (Inr x, w))"

definition throw :: "error \<Rightarrow> 'a io" where
  "throw e = (\<lambda>w. (Inl e, w))"

definition andThen :: "'a io \<Rightarrow> ('a \<Rightarrow> 'b io) \<Rightarrow> 'b io" where
  "andThen m f = (\<lambda>w. case m w of (Inl e, w') \<Rightarrow> (Inl e, w') | (Inr x, w') \<Rightarrow> f x w')"

definition tryCatch :: "'a io \<Rightarrow> (error \<Rightarrow> 'a io) \<Rightarrow> 'a io" where
  "tryCatch m h = (\<lambda>w. case m w of (Inl e, w') \<Rightarrow> h e w' | (Inr x, w') \<Rightarrow> (Inr x, w'))"

subsection \<open>What a statement does\<close>

text \<open>
  A parameter is compared with, or stored into, an integer column through \<open>sql_num\<close>;
  a parameter that is no number matches no row, and cannot be stored. The driver writes
  a non-finite number as the bare word \<^verbatim>\<open>NaN\<close>, which the server rejects.
\<close>

fun sql_num :: "json \<Rightarrow> int option" where
  "sql_num (JNum n) = Some n"
| "sql_num (JStr s) = str_to_num s"
| "sql_num (JBool b) = Some (if b then 1 else 0)"
| "sql_num v = None"

definition shoe_json :: "shoe_row \<Rightarrow> json" where
  "shoe_json r = JObj [(''id'', JNum (sh_id r)), (''name'', sh_name r), (''brand'', sh_brand r),
     (''price'', sh_price r), (''image'', sh_image r)]"

definition inv_json :: "inv_row \<Rightarrow> json" where
  "inv_json r = JObj [(''id'', JNum (inv_id r)), (''shoe_id'', JNum (inv_shoe_id r)),
     (''size'', JNum (inv_size r)), (''quantity'', JNum (inv_quantity r))]"

fun apply_set :: "string \<times> json \<Rightarrow> shoe_row \<Rightarrow> shoe_row" where
  "apply_set (c, v) r =
     (if c = ''name'' then r\<lparr>sh_name := v\<rparr>
      else if c = ''brand'' then r\<lparr>sh_brand := v\<rparr>
      else if c = ''price'' then r\<lparr>sh_price := v\<rparr>
      else if c = ''image'' then r\<lparr>sh_image := v\<rparr>
      else r)"

definition shoe_is :: "json \<Rightarrow> shoe_row \<Rightarrow> bool" where
  "shoe_is p r = (sql_num p = Some (sh_id r))"

definition inv_of :: "json \<Rightarrow> inv_row \<Rightarrow> bool" where
  "inv_of p r = (sql_num p = Some (inv_shoe_id r))"

definition inv_is :: "json \<Rightarrow> json \<Rightarrow> inv_row \<Rightarrow> bool" where
  "inv_is p q r = (sql_num p = Some (inv_shoe_id r) \<and> sql_num q = Some (inv_size r))"

definition inv_key :: "inv_row \<Rightarrow> int \<times> int" where
  "inv_key r = (inv_shoe_id r, inv_size r)"

fun inv_values :: "json \<times> json \<times> json \<Rightarrow> (int \<times> int \<times> int) option" where
  "inv_values (a, b, c) =
     (case (sql_num a, sql_num b, sql_num c) of
        (Some x, Some y, Some z) \<Rightarrow> Some (x, y, z)
      | _ \<Rightarrow> None)"

definition new_shoes :: "int \<Rightarrow> (json \<times> json \<times> json \<times> json) list \<Rightarrow> shoe_row list" where
  "new_shoes first rs =
     map (\<lambda>(k, (n, b, p, i)). \<lparr>sh_id = first + int k, sh_name = n, sh_brand = b, sh_price = p, sh_image = i\<rparr>)
       (zip [0..<length rs] rs)"

definition new_inventory :: "int \<Rightarrow> (int \<times> int \<times> int) list \<Rightarrow> inv_row list" where
  "new_inventory first vs =
     map (\<lambda>(k, (x, y, z)). \<lparr>inv_id = first + int k, inv_shoe_id = x, inv_size = y, inv_quantity = z\<rparr>)
       (zip [0..<length vs] vs)"

definition restore_tx :: "world \<Rightarrow> world" where
  "restore_tx w =
     (case tx w of
        None \<Rightarrow> w
      | Some (s, i) \<Rightarrow> w\<lparr>shoes_table := s, shoe_inventory := i, tx := None\<rparr>)"

fun exec :: "stmt \<Rightarrow> qresult io" where
  "exec BeginTransaction w = (Inr (Header 0 0), w\<lparr>tx := Some (shoes_table w, shoe_inventory w)\<rparr>)"
| "exec Commit w = (Inr (Header 0 0), w\<lparr>tx := None\<rparr>)"
| "exec Rollback w = (Inr (Header 0 0), restore_tx w)"
| "exec (DeleteShoe p) w =
     (if p = JNaN then (Inl (Error ''ER_BAD_FIELD_ERROR''), w)
      else if \<not> list_ex (shoe_is p) (shoes_table w) then (Inr (Header 0 0), w)
      else (Inr (Header (length (filter (shoe_is p) (shoes_table w))) 0),
            w\<lparr>shoes_table := filter (\<lambda>r. \<not> shoe_is p r) (shoes_table w),
              shoe_inventory :=
                (if cascade w then filter (\<lambda>r. \<not> inv_of p r) (shoe_inventory w)
                 else shoe_inventory w)\<rparr>))"
| "exec (UpdateShoe sets p) w =
     (if p = JNaN \<or> JNaN \<in> set (map snd sets) then (Inl (Error ''ER_BAD_FIELD_ERROR''), w)
      else (Inr (Header (length (filter (shoe_is p) (shoes_table w))) 0),
            w\<lparr>shoes_table := map (\<lambda>r. if shoe_is p r then fold apply_set sets r else r) (shoes_table w)\<rparr>))"
| "exec (SelectShoeId p) w =
     (if p = JNaN then (Inl (Error ''ER_BAD_FIELD_ERROR''), w)
      else (Inr (RowSet (map (\<lambda>r. JObj [(''id'', JNum (sh_id r))]) (filter (shoe_is p) (shoes_table w)))), w))"
| "exec (SelectShoe p) w =
     (if p = JNaN then (Inl (Error ''ER_BAD_FIELD_ERROR''), w)
      else (Inr (RowSet (map shoe_json (filter (shoe_is p) (shoes_table w)))), w))"
| "exec (InsertShoes rs) w =
     (if list_ex (\<lambda>(n, b, p, i). JNaN \<in> {n, b, p, i}) rs then (Inl (Error ''ER_BAD_FIELD_ERROR''), w)
      else (Inr (Header (length rs) (next_shoe_id w)),
            w\<lparr>shoes_table := shoes_table w @ new_shoes (next_shoe_id w) rs,
              next_shoe_id := next_shoe_id w + int (length rs)\<rparr>))"
| "exec (DeleteInventory p) w =
     (if p = JNaN then (Inl (Error ''ER_BAD_FIELD_ERROR''), w)
      else (Inr (Header (length (filter (inv_of p) (shoe_inventory w))) 0),
            w\<lparr>shoe_inventory := filter (\<lambda>r. \<not> inv_of p r) (shoe_inventory w)\<rparr>))"
| "exec (InsertInventory rs) w =
     (if list_ex (\<lambda>(a, b, c). JNaN \<in> {a, b, c}) rs then (Inl (Error ''ER_BAD_FIELD_ERROR''), w)
      else (case those (map inv_values rs) of
              None \<Rightarrow> (Inl (Error ''ER_BAD_NULL_ERROR''), w)
            | Some vs \<Rightarrow>
                (let keys = map (\<lambda>(x, y, z). (x, y)) vs in
                 if \<not> distinct keys \<or> list_ex (\<lambda>k. k \<in> set (map inv_key (shoe_inventory w))) keys
                 then (Inl (Error ''ER_DUP_ENTRY''), w)
                 else (Inr (Header (length vs) (next_inv_id w)),
                       w\<lparr>shoe_inventory := shoe_inventory w @ new_inventory (next_inv_id w) vs,
                         next_inv_id := next_inv_id w + int (length vs)\<rparr>))))"
| "exec (UpsertQuantity a b c) w =
     (if JNaN \<in> {a, b, c} then (Inl (Error ''ER_BAD_FIELD_ERROR''), w)
      else (case inv_values (a, b, c) of
              None \<Rightarrow> (Inl (Error ''ER_BAD_NULL_ERROR''), w)
            | Some (x, y, z) \<Rightarrow>
                if list_ex (\<lambda>r. inv_key r = (x, y)) (shoe_inventory w)
                then (Inr (Header 2 0),
                      w\<lparr>shoe_inventory :=
                          map (\<lambda>r. if inv_key r = (x, y) then r\<lparr>inv_quantity := z\<rparr> else r) (shoe_inventory w)\<rparr>)
                else (Inr (Header 1 (next_inv_id w)),
                      w\<lparr>shoe_inventory := shoe_inventory w @ new_inventory (next_inv_id w) [(x, y, z)],
                        next_inv_id := next_inv_id w + 1\<rparr>)))"
| "exec (UpsertAddQuantity a b c) w =
     (if JNaN \<in> {a, b, c} then (Inl (Error ''ER_BAD_FIELD_ERROR''), w)
      else (case inv_values (a, b, c) of
              None \<Rightarrow> (Inl (Error ''ER_BAD_NULL_ERROR''), w)
            | Some (x, y, z) \<Rightarrow>
                if list_ex (\<lambda>r. inv_key r = (x, y)) (shoe_inventory w)
                then (Inr (Header 2 0),
                      w\<lparr>shoe_inventory :=
                          map (\<lambda>r. if inv_key r = (x, y) then r\<lparr>inv_quantity := inv_quantity r + z\<rparr> else r)
                            (shoe_inventory w)\<rparr>)
                else (Inr (Header 1 (next_inv_id w)),
                      w\<lparr>shoe_inventory := shoe_inventory w @ new_inventory (next_inv_id w) [(x, y, z)],
                        next_inv_id := next_inv_id w + 1\<rparr>)))"
| "exec (SelectQuantity p q) w =
     (if JNaN \<in> {p, q} then (Inl (Error ''ER_BAD_FIELD_ERROR''), w)
      else (Inr (RowSet (map (\<lambda>r. JObj [(''quantity'', JNum (inv_quantity r))])
                         (filter (inv_is p q) (shoe_inventory w)))), w))"
| "exec (DecrementQuantity d p q) w =
     (if JNaN \<in> {d, p, q} then (Inl (Error ''ER_BAD_FIELD_ERROR''), w)
      else (case sql_num d of
              None \<Rightarrow> (Inl (Error ''ER_BAD_NULL_ERROR''), w)
            | Some z \<Rightarrow>
                (Inr (Header (length (filter (inv_is p q) (shoe_inventory w))) 0),
                 w\<lparr>shoe_inventory :=
                     map (\<lambda>r. if inv_is p q r then r\<lparr>inv_quantity := max 0 (inv_quantity r + z)\<rparr> else r)
                       (shoe_inventory w)\<rparr>)))"
| "exec (SelectInventory p q) w =
     (if JNaN \<in> {p, q} then (Inl (Error ''ER_BAD_FIELD_ERROR''), w)
      else (Inr (RowSet (map inv_json (filter (inv_is p q) (shoe_inventory w)))), w))"

subsection \<open>Calls through a connection\<close>

definition next_outcome :: "world \<Rightarrow> outcome \<times> world" where
  "next_outcome w = (case faults w of [] \<Rightarrow> (Ok, w) | x # xs \<Rightarrow> (x, w\<lparr>faults := xs\<rparr>))"

text \<open>
  \<^verbatim>\<open>conn.query(sql, params)\<close>, and \<^verbatim>\<open>beginTransaction\<close>, \<^verbatim>\<open>commit\<close>, \<^verbatim>\<open>rollback\<close>: the
  statement is recorded in the log with the connection that carried it. A rollback that
  fails still leaves the rows as they were before the transaction: it can only fail when
  the connection is lost, and the server aborts the transaction of a lost connection.
\<close>

definition query :: "nat \<Rightarrow> stmt \<Rightarrow> qresult io" where
  "query conn st w =
     (case next_outcome (w\<lparr>log := log w @ [(conn, st)]\<rparr>) of
        (Ok, w') \<Rightarrow> exec st w'
      | (Fail e dropped, w') \<Rightarrow>
          (Inl e,
           (if st = Rollback then restore_tx w' else w')
             \<lparr>disconnected := (if dropped then conn # disconnected w' else disconnected w')\<rparr>))"

definition beginTransaction :: "nat \<Rightarrow> unit io" where
  "beginTransaction conn = andThen (query conn BeginTransaction) (\<lambda>r. ret ())"

definition commit :: "nat \<Rightarrow> unit io" where
  "commit conn = andThen (query conn Commit) (\<lambda>r. ret ())"

definition rollback :: "nat \<Rightarrow> unit io" where
  "rollback conn = andThen (query conn Rollback) (\<lambda>r. ret ())"

section \<open>Connection manager\<close>

text \<open>
  \<^verbatim>\<open>createConnection\<close> resolves the credentials and connects; either step can fail,
  which the fault schedule decides. A new connection gets the next unused number.
\<close>

definition createConnection :: "nat io" where
  "createConnection w =
     (case next_outcome w of
        (Ok, w') \<Rightarrow> (Inr (next_conn w'), w'\<lparr>next_conn := Suc (next_conn w')\<rparr>)
      | (Fail e dropped, w') \<Rightarrow> (Inl e, w'))"

definition getConnection :: "nat io" where
  "getConnection w =
     (case cachedConn w of
        Some c \<Rightarrow>
          if c \<notin> set (disconnected w) then (Inr c, w)
          else andThen createConnection (\<lambda>connection w'. (Inr connection, w'\<lparr>cachedConn := Some connection\<rparr>)) w
      | None \<Rightarrow>
          andThen createConnection (\<lambda>connection w'. (Inr connection, w'\<lparr>cachedConn := Some connection\<rparr>)) w)"

definition lower :: "char \<Rightarrow> char" where
  "lower c = (if 65 \<le> (of_char c :: nat) \<and> (of_char c :: nat) \<le> 90 then char_of ((of_char c :: nat) + 32) else c)"

fun starts_with :: "string \<Rightarrow> string \<Rightarrow> bool" where
  "starts_with [] s = True"
| "starts_with (p # ps) [] = False"
| "starts_with (p # ps) (c # cs) = (p = c \<and> starts_with ps cs)"

fun contains :: "string \<Rightarrow> string \<Rightarrow> bool" where
  "contains pat [] = (pat = [])"
| "contains pat (c # cs) = (starts_with pat (c # cs) \<or> contains pat cs)"

text \<open>
  The test
  \<^verbatim>\<open>/PROTOCOL_CONNECTION_LOST|ECONNRESET|ETIMEDOUT|EPIPE|read ECONNRESET|write EPIPE/i\<close>
  on the error's message: one of the alternatives occurs in it, letter case ignored.
\<close>

definition transient :: "error \<Rightarrow> bool" where
  "transient err =
     list_ex (\<lambda>p. contains (map lower p) (map lower (message err)))
       [''PROTOCOL_CONNECTION_LOST'', ''ECONNRESET'', ''ETIMEDOUT'', ''EPIPE'',
        ''read ECONNRESET'', ''write EPIPE'']"

text \<open>\<^verbatim>\<open>withDb(fn)\<close>: the first \<^verbatim>\<open>getConnection\<close> is outside the \<^verbatim>\<open>try\<close>.\<close>

definition withDb :: "(nat \<Rightarrow> 'a io) \<Rightarrow> 'a io" where
  "withDb fn =
     andThen getConnection (\<lambda>conn.
       tryCatch (fn conn) (\<lambda>err.
         if \<not> transient err then throw err
         else andThen (\<lambda>w. (Inr (), w\<lparr>cachedConn := None\<rparr>)) (\<lambda>u.
              andThen getConnection (\<lambda>conn'. fn conn'))))"


section \<open>Requests and responses\<close>

text \<open>
  The fields of the API Gateway event the handlers read. A string field that is absent
  is the empty string (both are falsy). \<open>ev_body\<close> is the body as \<^verbatim>\<open>JSON.parse\<close> sees
  it: absent or empty, not parseable, or parsed to a value. \<open>ev_shoes\<close> is
  \<^verbatim>\<open>event.shoes\<close>, which the seeder reads when it is invoked without a body.
\<close>

datatype ebody = NoBody | BadJson | Body json

record event =
  ev_method :: string
  ev_path :: string
  ev_id :: string
  ev_jwt_claims :: json
  ev_claims :: json
  ev_body :: ebody
  ev_shoes :: json

text \<open>
  A response is its status code and its body; \<open>None\<close> is the empty body \<^verbatim>\<open>''\<close>, and
  \<open>Some v\<close> is \<^verbatim>\<open>JSON.stringify(v)\<close>. The headers are the constant \<^verbatim>\<open>CORS_HEADERS\<close> and
  are left out.
\<close>

record response =
  statusCode :: nat
  resp_body :: "json option"

definition resp :: "nat \<Rightarrow> json \<Rightarrow> response" where
  "resp code bodyObj = \<lparr>statusCode = code, resp_body = (if nullish bodyObj then None else Some bodyObj)\<rparr>"

definition msg :: "string \<Rightarrow> json" where
  "msg m = JObj [(''message'', JStr m)]"

definition msg_error :: "string \<Rightarrow> string \<Rightarrow> json" where
  "msg_error m e = JObj [(''message'', JStr m), (''error'', JStr e)]"

definition str_or :: "string \<Rightarrow> string \<Rightarrow> string" where
  "str_or a b = (if a \<noteq> [] then a else b)"

text \<open>\<^verbatim>\<open>String(err && err.message || err)\<close> for a thrown \<^verbatim>\<open>Error\<close>.\<close>

definition err_text :: "error \<Rightarrow> string" where
  "err_text err = str_or (message err) ''Error''"

subsection \<open>Auth helpers\<close>

definition getClaims :: "event \<Rightarrow> json" where
  "getClaims ev = js_or (ev_jwt_claims ev) (js_or (ev_claims ev) (JObj []))"

definition isAdmin :: "json \<Rightarrow> bool" where
  "isAdmin claims =
     (let groups = get_prop claims ''cognito:groups'' in
      if \<not> truthy groups then False
      else if isArray groups then JStr ''admin'' \<in> set (elems groups)
      else ''admin'' \<in> set (split_on CHR '','' (js_String groups)))"

subsection \<open>Routes\<close>

text \<open>
  \<^verbatim>\<open>/\/shoes\/[^/]+$/.test(path)\<close>: the path ends with \<^verbatim>\<open>/shoes/\<close> and one non-empty
  segment; \<^verbatim>\<open>/\/shoes\/[^/]+\/inventory$/\<close> likewise, followed by \<^verbatim>\<open>/inventory\<close>.
\<close>

definition route_shoe :: "string \<Rightarrow> bool" where
  "route_shoe path =
     (case rev (split_on CHR ''/'' path) of
        x # s # p # ps \<Rightarrow> x \<noteq> [] \<and> s = ''shoes''
      | _ \<Rightarrow> False)"


text \<open>\<^verbatim>\<open>path.split('/').pop()\<close> and \<^verbatim>\<open>path.split('/').filter(Boolean).pop()\<close>.\<close>

definition last_segment :: "string \<Rightarrow> string" where
  "last_segment path = last (split_on CHR ''/'' path)"


section \<open>DELETE /shoes/{id}\<close>

datatype del_result = NotFound | Deleted

text \<open>The function handed to \<^verbatim>\<open>withDb\<close> by the guarded delete handler.\<close>

definition delete_fn :: "string \<Rightarrow> nat \<Rightarrow> del_result io" where
  "delete_fn shoeId conn =
     andThen (beginTransaction conn) (\<lambda>u.
       tryCatch
         (andThen (query conn (DeleteShoe (JStr shoeId))) (\<lambda>del.
            if affectedRows del = 0
            then andThen (rollback conn) (\<lambda>u. ret NotFound)
            else andThen (commit conn) (\<lambda>u. ret Deleted)))
         (\<lambda>e. andThen (rollback conn) (\<lambda>u. throw e)))"

text \<open>The delete handler with the admin guard and \<^verbatim>\<open>withDb\<close> (\<^verbatim>\<open>handler.js\<close>).\<close>

definition deleteShoes_handler :: "event \<Rightarrow> response io" where
  "deleteShoes_handler ev =
     tryCatch
       (let method = ev_method ev in
        if method = ''OPTIONS'' then ret (resp 200 JNull)
        else if \<not> isAdmin (getClaims ev) then ret (resp 403 (msg ''Forbidden: admin role required''))
        else
          (let path = ev_path ev; httpMethod = str_or method ''GET'' in
           if httpMethod = ''DELETE'' \<and> route_shoe path then
             (let shoeId = str_or (ev_id ev) (last_segment path) in
              if shoeId = [] then ret (resp 400 (msg ''Shoe ID is required.''))
              else andThen (withDb (delete_fn shoeId)) (\<lambda>result.
                     if result = NotFound then ret (resp 404 (msg ''Shoe not found.''))
                     else ret (resp 200 (msg ''Shoe deleted successfully.''))))
           else ret (resp 404 (msg ''Route not found.''))))
       (\<lambda>err. ret (resp 500 (msg_error ''Internal Server Error'' (err_text err))))"

text \<open>
  The older delete handler, without guard: its \<^verbatim>\<open>catch\<close> rolls back only when the
  connection was obtained, and the rollback there is not itself guarded.
\<close>

definition deleteShoes_legacy :: "event \<Rightarrow> response io" where
  "deleteShoes_legacy ev =
     (let shoeId = ev_id ev in
      if shoeId = [] then ret (resp 400 (msg ''Shoe ID is required.''))
      else (\<lambda>w.
        case getConnection w of
          (Inl error, w') \<Rightarrow> (Inr (resp 500 (msg_error ''Error deleting shoe.'' (message error))), w')
        | (Inr connection, w') \<Rightarrow>
            tryCatch
              (andThen (beginTransaction connection) (\<lambda>u.
               andThen (query connection (DeleteShoe (JStr shoeId))) (\<lambda>deleteResult.
                 if affectedRows deleteResult = 0
                 then andThen (rollback connection) (\<lambda>u. ret (resp 404 (msg ''Shoe not found.'')))
                 else andThen (commit connection) (\<lambda>u.
                        ret (resp 200 (msg ''Shoe and inventory deleted successfully.''))))))
              (\<lambda>error. andThen (rollback connection) (\<lambda>u.
                 ret (resp 500 (msg_error ''Error deleting shoe.'' (message error)))))
              w'))"

section \<open>PUT /shoes/{id} and PATCH /shoes/{id}/inventory\<close>

definition parseJsonBody :: "event \<Rightarrow> json" where
  "parseJsonBody ev = (case ev_body ev of NoBody \<Rightarrow> JObj [] | BadJson \<Rightarrow> JNull | Body v \<Rightarrow> v)"

text \<open>The rows built from the \<^verbatim>\<open>inventory\<close> array of a PUT body.\<close>

fun inventory_rows :: "string \<Rightarrow> json list \<Rightarrow> (json \<times> json \<times> json) list" where
  "inventory_rows shoeId [] = []"
| "inventory_rows shoeId (item # items) =
     (if truthy item \<and> \<not> nullish (get_prop item ''size'')
      then [(js_Number (JStr shoeId), js_Number (get_prop item ''size''),
             js_Number (js_or (get_prop item ''quantity'') (JNum 1)))]
      else [])
     @ inventory_rows shoeId items"

text \<open>The chunked insert: \<^verbatim>\<open>for (i = 0; i < rows.length; i += 10)\<close> over \<^verbatim>\<open>rows.slice(i, i + 10)\<close>.\<close>

function insert_batches :: "nat \<Rightarrow> (json \<times> json \<times> json) list \<Rightarrow> unit io" where
  "insert_batches conn rows =
     (if rows = [] then ret ()
      else andThen (query conn (InsertInventory (take 10 rows))) (\<lambda>r.
             insert_batches conn (drop 10 rows)))"
  by pat_completeness auto
termination
  by (relation "measure (\<lambda>(conn, rows). length rows)") auto

definition put_sets :: "json \<Rightarrow> (string \<times> json) list" where
  "put_sets body =
     (if \<not> nullish (get_prop body ''name'') then [(''name'', JStr (js_String (get_prop body ''name'')))] else [])
     @ (if \<not> nullish (get_prop body ''brand'') then [(''brand'', JStr (js_String (get_prop body ''brand'')))] else [])
     @ (if \<not> nullish (get_prop body ''price'') then [(''price'', js_Number (get_prop body ''price''))] else [])
     @ (if \<not> nullish (get_prop body ''image'') then [(''image'', js_or (get_prop body ''image'') JNull)] else [])"

text \<open>The part of the transaction after the shoe is known to exist.\<close>

definition put_replace :: "nat \<Rightarrow> string \<Rightarrow> json \<Rightarrow> response io" where
  "put_replace conn shoeId inventory =
     andThen
       (if isArray inventory
        then andThen (query conn (DeleteInventory (JStr shoeId))) (\<lambda>r.
               insert_batches conn (inventory_rows shoeId (elems inventory)))
        else ret ())
       (\<lambda>u. andThen (query conn (SelectShoe (JStr shoeId))) (\<lambda>rows.
            andThen (commit conn) (\<lambda>u.
              ret (resp 200 (case rows_of rows of
                               r # rs \<Rightarrow> r
                             | [] \<Rightarrow> JObj [(''id'', js_Number (JStr shoeId))])))))"

definition handlePutUpdate :: "event \<Rightarrow> string \<Rightarrow> response io" where
  "handlePutUpdate ev shoeId =
     (let body = parseJsonBody ev in
      if \<not> truthy body then ret (resp 400 (msg ''Invalid JSON body''))
      else
        (let inventory = get_prop body ''inventory''; sets = put_sets body in
         andThen getConnection (\<lambda>conn.
         andThen (beginTransaction conn) (\<lambda>u.
           tryCatch
             (if sets \<noteq> []
              then andThen (query conn (UpdateShoe sets (JStr shoeId))) (\<lambda>upd.
                     if affectedRows upd = 0
                     then andThen (rollback conn) (\<lambda>u. ret (resp 404 (msg ''Shoe not found.'')))
                     else put_replace conn shoeId inventory)
              else andThen (query conn (SelectShoeId (JStr shoeId))) (\<lambda>exists.
                     if rows_of exists = []
                     then andThen (rollback conn) (\<lambda>u. ret (resp 404 (msg ''Shoe not found.'')))
                     else put_replace conn shoeId inventory))
             (\<lambda>e. andThen (rollback conn) (\<lambda>u. throw e))))))"







section \<open>POST /shoes\<close>




subsection \<open>The seeder (\<^verbatim>\<open>src/handlers/seedShoes.js\<close>)\<close>





subsection \<open>The create handler with the admin guard (\<^verbatim>\<open>handlers/seedShoes.js\<close> of the build)\<close>








section \<open>The upsert of the specification\<close>


section \<open>What a rollback restores\<close>

text \<open>
  The rows of both tables; and the situation, inside a transaction begun on rows \<open>T\<close>,
  from which a rollback leads back to \<open>T\<close>: the transaction is still open, or it was
  already rolled back.
\<close>

definition tables :: "world \<Rightarrow> shoe_row list \<times> inv_row list" where
  "tables w = (shoes_table w, shoe_inventory w)"

definition restorable :: "shoe_row list \<times> inv_row list \<Rightarrow> world \<Rightarrow> bool" where
  "restorable T w = (tx w = Some T \<or> (tx w = None \<and> tables w = T))"

section \<open>Stored inventory, apart from the row ids\<close>



section \<open>Created products\<close>



section \<open>Example data\<close>

text \<open>
  A store with one shoe (id 1) that has three pairs of size 9, no foreign key on
  \<^verbatim>\<open>shoe_inventory\<close>, no fault scheduled and no connection cached yet; and a request
  whose claims carry the \<^verbatim>\<open>admin\<close> group.
\<close>

definition demo_world :: world where
  "demo_world =
     \<lparr>shoes_table = [\<lparr>sh_id = 1, sh_name = JStr ''Air Zoom'', sh_brand = JStr ''Nike'',
                       sh_price = JNum 129, sh_image = JStr ''u''\<rparr>],
      shoe_inventory = [\<lparr>inv_id = 1, inv_shoe_id = 1, inv_size = 9, inv_quantity = 3\<rparr>],
      next_shoe_id = 2, next_inv_id = 2, cascade = False, tx = None, faults = [], log = [],
      cachedConn = None, disconnected = [], next_conn = 0\<rparr>"

definition admin_event :: event where
  "admin_event =
     \<lparr>ev_method = ''GET'', ev_path = ''/shoes/1'', ev_id = ''1'', ev_jwt_claims = JUndef,
      ev_claims = JObj [(''cognito:groups'', JStr ''staff,admin'')], ev_body = NoBody,
      ev_shoes = JUndef\<rparr>"

definition flaky_world :: world where
  "flaky_world =
     demo_world\<lparr>faults := [Ok, Fail (Error ''read ECONNRESET'') True, Ok,
                             Fail (Error ''ER_LOCK_DEADLOCK'') False]\<rparr>"

definition select_shoe_1 :: "nat \<Rightarrow> qresult io" where
  "select_shoe_1 conn = query conn (SelectShoe (JNum 1))"

definition delete_event :: event where
  "delete_event = admin_event\<lparr>ev_method := ''DELETE''\<rparr>"




definition dup_put_event :: event where
  "dup_put_event =
     admin_event\<lparr>ev_method := ''PUT'',
       ev_body := Body (JObj [(''name'', JStr ''Pegasus''),
         (''inventory'', JArr [JObj [(''size'', JNum 9), (''quantity'', JNum 1)],
                               JObj [(''size'', JNum 9), (''quantity'', JNum 2)]])])\<rparr>"









section \<open>The store when no fault is scheduled\<close>














section \<open>The connection manager retries once\<close>

lemma getConnection_fresh:
  "cachedConn w = None \<Longrightarrow> getConnection w = (Inr c, w') \<Longrightarrow>
     c = next_conn w \<and> next_conn w' = Suc c \<and> cachedConn w' = Some c"
  by (auto simp: getConnection_def andThen_def createConnection_def next_outcome_def
           split: list.splits outcome.splits)

text \<open>
  Claim C6. Let the first \<^verbatim>\<open>getConnection\<close> give \<open>conn\<close>. If \<open>fn conn\<close> succeeds, that
  is the result. If it fails with an error that is not transient, the error propagates
  as it is, from the state the first attempt left (the cache is not touched, nothing is
  retried). If it fails with a transient error, the cached connection is discarded, and
  when \<^verbatim>\<open>getConnection\<close> then gives \<open>conn'\<close>, this is a newly created connection, now
  cached, and the outcome of \<open>withDb\<close> is exactly the outcome of the one second call
  \<open>fn conn'\<close>, whether that is a value or an error.
\<close>

theorem withDb_retries_once:
  assumes "getConnection w = (Inr conn, w1)"
  shows "(fn conn w1 = (Inr v, w2) \<longrightarrow> withDb fn w = (Inr v, w2))
       \<and> (fn conn w1 = (Inl err, w2) \<and> \<not> transient err \<longrightarrow> withDb fn w = (Inl err, w2))
       \<and> (fn conn w1 = (Inl err, w2) \<and> transient err
            \<and> getConnection (w2\<lparr>cachedConn := None\<rparr>) = (Inr conn', w3)
          \<longrightarrow> withDb fn w = fn conn' w3 \<and> conn' = next_conn w2 \<and> next_conn w3 = Suc conn'
              \<and> cachedConn w3 = Some conn')"
  using assms getConnection_fresh[of "w2\<lparr>cachedConn := None\<rparr>" conn' w3]
  by (simp add: withDb_def andThen_def tryCatch_def throw_def)

text \<open>
  On \<open>flaky_world\<close> the first query meets a connection reset: it is retried on
  connection 1, fails there with a deadlock, and that error is the result; the log
  shows the two attempts.
\<close>

theorem withDb_retries_once_witness:
  "getConnection flaky_world = (Inr 0, snd (getConnection flaky_world))
   \<and> transient (Error ''read ECONNRESET'')
   \<and> fst (withDb select_shoe_1 flaky_world) = Inl (Error ''ER_LOCK_DEADLOCK'')
   \<and> map fst (log (snd (withDb select_shoe_1 flaky_world))) = [0, 1]"
proof -
  let ?w1 = "snd (getConnection flaky_world)"
  let ?w2 = "snd (select_shoe_1 0 ?w1)"
  let ?w3 = "snd (getConnection (?w2\<lparr>cachedConn := None\<rparr>))"
  have a: "getConnection flaky_world = (Inr 0, ?w1)"
    by code_simp
  have b: "select_shoe_1 0 ?w1 = (Inl (Error ''read ECONNRESET''), ?w2)
      \<and> transient (Error ''read ECONNRESET'')
      \<and> getConnection (?w2\<lparr>cachedConn := None\<rparr>) = (Inr 1, ?w3)"
    by code_simp
  have c: "fst (select_shoe_1 1 ?w3) = Inl (Error ''ER_LOCK_DEADLOCK'')
      \<and> map fst (log (snd (select_shoe_1 1 ?w3))) = [0, 1]"
    by code_simp
  from withDb_retries_once[OF a, where fn = select_shoe_1 and err = "Error ''read ECONNRESET''"
      and ?w2.0 = ?w2 and conn' = 1 and ?w3.0 = ?w3] a b c
  show ?thesis by simp
qed

section \<open>The admin guard\<close>



section \<open>PATCH /shoes/{id}/inventory\<close>

text \<open>
  The three theorems below share their setting: the body parses to a truthy value whose
  \<^verbatim>\<open>size\<close> is a finite number \<open>s\<close>, the path id \<open>shoeId\<close> denotes the number \<open>pid\<close> of a
  row of \<^verbatim>\<open>shoes\<close>, and no fault is scheduled.
\<close>











section \<open>Deleting a shoe\<close>

text \<open>
  Claim C1, evaluated on the store without a foreign key. Both delete handlers answer
  200, and the shoe is gone, but its inventory row is still there: the only statements
  sent are the transaction brackets and \<^verbatim>\<open>DELETE FROM shoes\<close>. When the schema declares
  the cascade, it is the store that removes the row.
\<close>

theorem delete_leaves_inventory:
  "fst (deleteShoes_handler delete_event demo_world)
     = Inr (resp 200 (msg ''Shoe deleted successfully.''))
   \<and> fst (deleteShoes_legacy delete_event demo_world)
     = Inr (resp 200 (msg ''Shoe and inventory deleted successfully.''))
   \<and> shoes_table (snd (deleteShoes_handler delete_event demo_world)) = []
   \<and> shoes_table (snd (deleteShoes_legacy delete_event demo_world)) = []
   \<and> shoe_inventory (snd (deleteShoes_handler delete_event demo_world))
     = [\<lparr>inv_id = 1, inv_shoe_id = 1, inv_size = 9, inv_quantity = 3\<rparr>]
   \<and> shoe_inventory (snd (deleteShoes_legacy delete_event demo_world))
     = [\<lparr>inv_id = 1, inv_shoe_id = 1, inv_size = 9, inv_quantity = 3\<rparr>]
   \<and> log (snd (deleteShoes_handler delete_event demo_world))
     = [(0, BeginTransaction), (0, DeleteShoe (JStr ''1'')), (0, Commit)]
   \<and> log (snd (deleteShoes_legacy delete_event demo_world))
     = [(0, BeginTransaction), (0, DeleteShoe (JStr ''1'')), (0, Commit)]
   \<and> shoe_inventory (snd (deleteShoes_handler delete_event (demo_world\<lparr>cascade := True\<rparr>))) = []"
  by code_simp

section \<open>PUT /shoes/{id}: the transaction\<close>

lemma exec_error_unchanged: "exec st w = (Inl e, w') \<Longrightarrow> w' = w"
  by (cases st) (simp_all add: Let_def restore_tx_def split: if_splits option.splits prod.splits)

lemma exec_keeps_tx:
  "st \<noteq> BeginTransaction \<Longrightarrow> st \<noteq> Commit \<Longrightarrow> st \<noteq> Rollback \<Longrightarrow> tx (snd (exec st w)) = tx w"
  by (cases st) (simp_all add: Let_def split: if_splits option.splits prod.splits)

lemma query_keeps_tx:
  "st \<noteq> BeginTransaction \<Longrightarrow> st \<noteq> Commit \<Longrightarrow> st \<noteq> Rollback \<Longrightarrow> tx (snd (query conn st w)) = tx w"
  using exec_keeps_tx[of st]
  by (simp add: query_def next_outcome_def split: list.splits outcome.splits)

lemma query_error_tables:
  assumes "query conn st w = (Inl e, w')" "st \<noteq> Rollback"
  shows "shoes_table w' = shoes_table w \<and> shoe_inventory w' = shoe_inventory w \<and> tx w' = tx w"
proof (cases "faults w")
  case Nil
  with assms(1) have "exec st (w\<lparr>log := log w @ [(conn, st)]\<rparr>) = (Inl e, w')"
    by (simp add: query_def next_outcome_def)
  from exec_error_unchanged[OF this] show ?thesis by simp
next
  case (Cons x xs)
  show ?thesis
  proof (cases x)
    case Ok
    with Cons assms(1) have "exec st (w\<lparr>log := log w @ [(conn, st)], faults := xs\<rparr>) = (Inl e, w')"
      by (simp add: query_def next_outcome_def)
    from exec_error_unchanged[OF this] show ?thesis by simp
  next
    case (Fail e' d)
    with Cons assms show ?thesis
      by (auto simp: query_def next_outcome_def)
  qed
qed

lemma andThen_Inl:
  assumes "andThen m f w = (Inl e, w')"
  obtains "m w = (Inl e, w')" | x w1 where "m w = (Inr x, w1)" "f x w1 = (Inl e, w')"
  using assms by (auto simp: andThen_def split: prod.splits sum.splits)


lemma getConnection_tables:
  "getConnection w = (r, w') \<Longrightarrow> tables w' = tables w \<and> tx w' = tx w"
  by (auto simp: getConnection_def andThen_def createConnection_def next_outcome_def tables_def
      split: option.splits if_splits list.splits outcome.splits)

lemma rollback_restores:
  assumes "restorable T w" "rollback conn w = (r, w')"
  shows "tables w' = T \<and> tx w' = None"
  using assms
  by (cases T)
     (auto simp: rollback_def andThen_def ret_def query_def next_outcome_def restore_tx_def
      restorable_def tables_def split: list.splits outcome.splits)

lemma beginTransaction_ok:
  "beginTransaction conn w = (Inr u, w') \<Longrightarrow> tx w' = Some (tables w) \<and> tables w' = tables w"
  by (auto simp: beginTransaction_def andThen_def ret_def query_def next_outcome_def tables_def
      split: list.splits outcome.splits)

lemma beginTransaction_error:
  "beginTransaction conn w = (Inl e, w') \<Longrightarrow> tables w' = tables w"
  by (auto simp: beginTransaction_def andThen_def ret_def query_def next_outcome_def tables_def
      split: list.splits outcome.splits)

lemma commit_error:
  "commit conn w = (Inl e, w') \<Longrightarrow> tx w' = tx w"
  by (auto simp: commit_def andThen_def ret_def query_def next_outcome_def
      split: list.splits outcome.splits)

lemma insert_batches_keeps_tx: "tx (snd (insert_batches conn rows w)) = tx w"
proof (induction conn rows arbitrary: w rule: insert_batches.induct)
  case (1 conn rows)
  show ?case
  proof (cases "rows = []")
    case True
    then show ?thesis by (simp add: ret_def)
  next
    case False
    obtain r w1 where q: "query conn (InsertInventory (take 10 rows)) w = (r, w1)"
      by (cases "query conn (InsertInventory (take 10 rows)) w")
    have t1: "tx w1 = tx w"
      using query_keeps_tx[of "InsertInventory (take 10 rows)" conn w] q by simp
    show ?thesis
    proof (cases r)
      case (Inl e)
      with False q t1 show ?thesis
        by (subst insert_batches.simps) (simp add: andThen_def)
    next
      case (Inr x)
      with False q t1 "1.IH"[OF False, of w1] show ?thesis
        by (subst insert_batches.simps) (simp add: andThen_def)
    qed
  qed
qed

lemma put_replace_error_tx:
  assumes t: "tx w = Some T" and run: "put_replace conn shoeId inventory w = (Inl e, w')"
  shows "tx w' = Some T"
proof -
  let ?m1 = "if isArray inventory
        then andThen (query conn (DeleteInventory (JStr shoeId))) (\<lambda>r.
               insert_batches conn (inventory_rows shoeId (elems inventory)))
        else ret ()"
  have m1: "tx (snd (?m1 w)) = tx w"
  proof (cases "isArray inventory")
    case False
    then show ?thesis by (simp add: ret_def)
  next
    case True
    obtain r w1 where q: "query conn (DeleteInventory (JStr shoeId)) w = (r, w1)"
      by (cases "query conn (DeleteInventory (JStr shoeId)) w")
    have "tx w1 = tx w"
      using query_keeps_tx[of "DeleteInventory (JStr shoeId)" conn w] q by simp
    with True q insert_batches_keeps_tx[of conn "inventory_rows shoeId (elems inventory)" w1]
    show ?thesis
      by (cases r) (simp_all add: andThen_def)
  qed
  from run have "andThen ?m1 (\<lambda>u. andThen (query conn (SelectShoe (JStr shoeId))) (\<lambda>rows.
            andThen (commit conn) (\<lambda>u.
              ret (resp 200 (case rows_of rows of
                               r # rs \<Rightarrow> r
                             | [] \<Rightarrow> JObj [(''id'', js_Number (JStr shoeId))]))))) w = (Inl e, w')"
    by (simp add: put_replace_def)
  then show ?thesis
  proof (cases rule: andThen_Inl)
    case 1
    with m1 t show ?thesis by simp
  next
    case (2 u w1)
    from 2(1) m1 t have t1: "tx w1 = Some T" by simp
    from 2(2) show ?thesis
    proof (cases rule: andThen_Inl)
      case 1
      with query_keeps_tx[of "SelectShoe (JStr shoeId)" conn w1] t1 show ?thesis by simp
    next
      case (2 rows w2)
      from 2(1) query_keeps_tx[of "SelectShoe (JStr shoeId)" conn w1] t1 have t2: "tx w2 = Some T"
        by simp
      from 2(2) show ?thesis
      proof (cases rule: andThen_Inl)
        case 1
        from commit_error[OF 1] t2 show ?thesis by simp
      next
        case (2 u' w3)
        then show ?thesis by (simp add: ret_def)
      qed
    qed
  qed
qed

lemma not_found_restorable:
  assumes "tx w = Some T"
    and "andThen (rollback conn) (\<lambda>u. ret r) w = (Inl e, w')"
  shows "restorable T w'"
  using assms(2)
proof (cases rule: andThen_Inl)
  case 1
  from rollback_restores[OF _ 1, of T] assms(1) show ?thesis
    by (simp add: restorable_def)
next
  case (2 x w1)
  then show ?thesis by (simp add: ret_def)
qed

lemma put_body_error:
  assumes t: "tx w = Some T"
    and run: "(if sets \<noteq> []
              then andThen (query conn (UpdateShoe sets (JStr shoeId))) (\<lambda>upd.
                     if affectedRows upd = 0
                     then andThen (rollback conn) (\<lambda>u. ret (resp 404 (msg ''Shoe not found.'')))
                     else put_replace conn shoeId inventory)
              else andThen (query conn (SelectShoeId (JStr shoeId))) (\<lambda>exists.
                     if rows_of exists = []
                     then andThen (rollback conn) (\<lambda>u. ret (resp 404 (msg ''Shoe not found.'')))
                     else put_replace conn shoeId inventory)) w = (Inl e, w')"
  shows "restorable T w'"
proof (cases "sets \<noteq> []")
  case True
  with run have "andThen (query conn (UpdateShoe sets (JStr shoeId))) (\<lambda>upd.
                     if affectedRows upd = 0
                     then andThen (rollback conn) (\<lambda>u. ret (resp 404 (msg ''Shoe not found.'')))
                     else put_replace conn shoeId inventory) w = (Inl e, w')"
    by simp
  then show ?thesis
  proof (cases rule: andThen_Inl)
    case 1
    with query_keeps_tx[of "UpdateShoe sets (JStr shoeId)" conn w] t show ?thesis
      by (simp add: restorable_def)
  next
    case (2 upd w1)
    from 2(1) query_keeps_tx[of "UpdateShoe sets (JStr shoeId)" conn w] t have t1: "tx w1 = Some T"
      by simp
    show ?thesis
    proof (cases "affectedRows upd = 0")
      case True
      with 2(2) not_found_restorable[OF t1] show ?thesis by simp
    next
      case False
      with 2(2) put_replace_error_tx[OF t1] show ?thesis by (simp add: restorable_def)
    qed
  qed
next
  case False
  with run have "andThen (query conn (SelectShoeId (JStr shoeId))) (\<lambda>exists.
                     if rows_of exists = []
                     then andThen (rollback conn) (\<lambda>u. ret (resp 404 (msg ''Shoe not found.'')))
                     else put_replace conn shoeId inventory) w = (Inl e, w')"
    by simp
  then show ?thesis
  proof (cases rule: andThen_Inl)
    case 1
    with query_keeps_tx[of "SelectShoeId (JStr shoeId)" conn w] t show ?thesis
      by (simp add: restorable_def)
  next
    case (2 ex w1)
    from 2(1) query_keeps_tx[of "SelectShoeId (JStr shoeId)" conn w] t have t1: "tx w1 = Some T"
      by simp
    show ?thesis
    proof (cases "rows_of ex = []")
      case True
      with 2(2) not_found_restorable[OF t1] show ?thesis by simp
    next
      case False
      with 2(2) put_replace_error_tx[OF t1] show ?thesis by (simp add: restorable_def)
    qed
  qed
qed

lemma tryCatch_Inl:
  assumes "tryCatch m h w = (Inl e, w')"
  obtains e0 w1 where "m w = (Inl e0, w1)" "h e0 w1 = (Inl e, w')"
  using assms by (auto simp: tryCatch_def split: prod.splits sum.splits)

text \<open>
  Claim C3. Whenever \<open>handlePutUpdate\<close> ends with an exception, whichever call threw
  it (obtaining the connection, \<^verbatim>\<open>beginTransaction\<close>, the field update or existence
  check, the delete of the old inventory, a chunk of the insert, the final select, the
  commit, or a rollback), and whatever faults are scheduled, the rows of \<^verbatim>\<open>shoes\<close> and of
  \<^verbatim>\<open>shoe_inventory\<close> are those from before the call.
\<close>

theorem put_update_rolls_back:
  assumes run: "handlePutUpdate ev shoeId w = (Inl e, w')"
  shows "shoes_table w' = shoes_table w \<and> shoe_inventory w' = shoe_inventory w"
proof -
  let ?body = "parseJsonBody ev"
  have tr: "truthy ?body"
    using run by (auto simp: handlePutUpdate_def Let_def ret_def split: if_splits)
  let ?inv = "get_prop ?body ''inventory''"
  let ?sets = "put_sets ?body"
  from run tr have "andThen getConnection (\<lambda>conn.
         andThen (beginTransaction conn) (\<lambda>u.
           tryCatch
             (if ?sets \<noteq> []
              then andThen (query conn (UpdateShoe ?sets (JStr shoeId))) (\<lambda>upd.
                     if affectedRows upd = 0
                     then andThen (rollback conn) (\<lambda>u. ret (resp 404 (msg ''Shoe not found.'')))
                     else put_replace conn shoeId ?inv)
              else andThen (query conn (SelectShoeId (JStr shoeId))) (\<lambda>exists.
                     if rows_of exists = []
                     then andThen (rollback conn) (\<lambda>u. ret (resp 404 (msg ''Shoe not found.'')))
                     else put_replace conn shoeId ?inv))
             (\<lambda>e. andThen (rollback conn) (\<lambda>u. throw e)))) w = (Inl e, w')"
    by (simp add: handlePutUpdate_def Let_def)
  then have "tables w' = tables w"
  proof (cases rule: andThen_Inl)
    case 1
    then show ?thesis using getConnection_tables by blast
  next
    case (2 conn w1)
    have g: "tables w1 = tables w"
      using getConnection_tables[OF 2(1)] by simp
    from 2(2) show ?thesis
    proof (cases rule: andThen_Inl)
      case 1
      with beginTransaction_error g show ?thesis by metis
    next
      case (2 u w2)
      from beginTransaction_ok[OF 2(1)] g have t2: "tx w2 = Some (tables w)"
        by simp
      from 2(2) show ?thesis
      proof (cases rule: tryCatch_Inl)
        case (1 e0 w3)
        from put_body_error[OF t2 1(1)] have r3: "restorable (tables w) w3" .
        obtain r w4 where rb: "rollback conn w3 = (r, w4)"
          by (cases "rollback conn w3")
        from rollback_restores[OF r3 rb] have t4: "tables w4 = tables w"
          by simp
        from 1(2) rb have "w' = w4"
          by (cases r) (simp_all add: andThen_def throw_def)
        with t4 show ?thesis by simp
      qed
    qed
  qed
  then show ?thesis
    by (simp add: tables_def)
qed

text \<open>
  A replacement that names size 9 twice violates the unique key in the insert, after
  the name was updated and the old inventory deleted; the handler rolls back and
  rethrows, and both tables are as before.
\<close>

theorem put_update_rolls_back_witness:
  "fst (handlePutUpdate dup_put_event ''1'' demo_world) = Inl (Error ''ER_DUP_ENTRY'')
   \<and> map snd (log (snd (handlePutUpdate dup_put_event ''1'' demo_world)))
       = [BeginTransaction, UpdateShoe [(''name'', JStr ''Pegasus'')] (JStr ''1''),
          DeleteInventory (JStr ''1''),
          InsertInventory [(JNum 1, JNum 9, JNum 1), (JNum 1, JNum 9, JNum 2)], Rollback]
   \<and> shoes_table (snd (handlePutUpdate dup_put_event ''1'' demo_world)) = shoes_table demo_world
   \<and> shoe_inventory (snd (handlePutUpdate dup_put_event ''1'' demo_world)) = shoe_inventory demo_world"
proof -
  have a: "fst (handlePutUpdate dup_put_event ''1'' demo_world) = Inl (Error ''ER_DUP_ENTRY'')
    \<and> map snd (log (snd (handlePutUpdate dup_put_event ''1'' demo_world)))
       = [BeginTransaction, UpdateShoe [(''name'', JStr ''Pegasus'')] (JStr ''1''),
          DeleteInventory (JStr ''1''),
          InsertInventory [(JNum 1, JNum 9, JNum 1), (JNum 1, JNum 9, JNum 2)], Rollback]"
    by code_simp
  then have "handlePutUpdate dup_put_event ''1'' demo_world
      = (Inl (Error ''ER_DUP_ENTRY''), snd (handlePutUpdate dup_put_event ''1'' demo_world))"
    by (metis prod.collapse)
  from put_update_rolls_back[OF this] a show ?thesis
    by simp
qed

section \<open>PUT /shoes/{id}: the quantities of a replaced inventory\<close>


lemma those_map_Some: "those (map Some vs) = Some vs"
  by (induction vs) auto


















section \<open>POST /shoes: what is rejected\<close>





section \<open>POST /shoes: the response\<close>

subsection \<open>Generated ids stay below the counter\<close>









subsection \<open>What the batch loops return\<close>









subsection \<open>The handlers\<close>







end
